theory Spec2Isabelle
  imports Main "HOL-Library.Word"
begin

unbundle bit_operations_syntax

section \<open>RawInputViewer: keyboard normalisation, event codec and key tables\<close>

text \<open>
  A shallow embedding of the core of RawInputViewer (\<^verbatim>\<open>src/RawInputViewer.hpp\<close> and
  \<^verbatim>\<open>src/RawInputViewer.cpp\<close>): the class \<^verbatim>\<open>RawKeyboard\<close>, the union
  \<^verbatim>\<open>PackedRawKeyboard\<close>, the member function \<^verbatim>\<open>MainWindow::adjustKeyboardInput\<close>, the
  two table-loading loops of the \<^verbatim>\<open>MainWindow\<close> constructor and the two lookup functions.
  \<^verbatim>\<open>USHORT\<close> is \<open>16 word\<close>; \<^verbatim>\<open>uint32_t\<close>, \<^verbatim>\<open>UINT\<close> and \<^verbatim>\<open>int\<close> are \<open>32 word\<close>;
  \<^verbatim>\<open>long long\<close> is \<open>64 word\<close>. Platform functions that the code calls
  (\<^verbatim>\<open>MapVirtualKey\<close>, \<^verbatim>\<open>strtoll\<close>, \<^verbatim>\<open>MultiByteToWideChar\<close>) are parameters of the
  functions that call them.
\<close>

subsection \<open>Constants of the Windows headers\<close>

text \<open>
  Modelled from the spec: the macros \<^verbatim>\<open>KEYBOARD_OVERRUN_MAKE_CODE\<close>, \<^verbatim>\<open>RI_KEY_BREAK\<close>,
  \<^verbatim>\<open>RI_KEY_E0\<close>, \<^verbatim>\<open>RI_KEY_E1\<close>, \<^verbatim>\<open>MAPVK_VK_TO_VSC_EX\<close> and the \<^verbatim>\<open>VK_*\<close> codes come
  from \<^verbatim>\<open>windows.h\<close>, which is not part of the repository. The spec names them (overrun
  sentinel, key-released bit, extended-0 and extended-1 prefix bits, generic Shift, Control
  and Alt/Menu, their left and right variants, Pause); the values are the ones the Windows
  SDK headers give them.
\<close>

definition KEYBOARD_OVERRUN_MAKE_CODE :: "16 word" where
  "KEYBOARD_OVERRUN_MAKE_CODE = 0xFF"

definition RI_KEY_BREAK :: "16 word" where
  "RI_KEY_BREAK = 1"

definition RI_KEY_E0 :: "16 word" where
  "RI_KEY_E0 = 2"

definition RI_KEY_E1 :: "16 word" where
  "RI_KEY_E1 = 4"

definition MAPVK_VK_TO_VSC_EX :: "32 word" where
  "MAPVK_VK_TO_VSC_EX = 4"

definition VK_SHIFT :: "16 word" where
  "VK_SHIFT = 0x10"

definition VK_CONTROL :: "16 word" where
  "VK_CONTROL = 0x11"

definition VK_MENU :: "16 word" where
  "VK_MENU = 0x12"

definition VK_PAUSE :: "16 word" where
  "VK_PAUSE = 0x13"

definition VK_LSHIFT :: "16 word" where
  "VK_LSHIFT = 0xA0"

definition VK_RSHIFT :: "16 word" where
  "VK_RSHIFT = 0xA1"

definition VK_RCONTROL :: "16 word" where
  "VK_RCONTROL = 0xA3"

definition VK_RMENU :: "16 word" where
  "VK_RMENU = 0xA5"

text \<open>\<^verbatim>\<open>LOWORD\<close> keeps the low 16 bits of a 32-bit value.\<close>

definition LOWORD :: "32 word \<Rightarrow> 16 word" where
  "LOWORD l = ucast (l AND 0xFFFF)"

subsection \<open>\<^verbatim>\<open>AdjustmentFlags\<close>, \<^verbatim>\<open>RAWKEYBOARD\<close> and \<^verbatim>\<open>RawKeyboard\<close>\<close>

text \<open>
  \<^verbatim>\<open>enum class AdjustmentFlags : uint32_t\<close> with the bit-mask operators \<^verbatim>\<open>|\<close>, \<^verbatim>\<open>|=\<close> and
  \<^verbatim>\<open>&\<close>, which work on the underlying 32-bit value.
\<close>

type_synonym AdjustmentFlags = "32 word"

definition MakeCodeMapped :: AdjustmentFlags where
  "MakeCodeMapped = 0b00000001"

definition VirtualKeyAdjusted :: AdjustmentFlags where
  "VirtualKeyAdjusted = 0b00000010"

definition ExtendedLookup :: AdjustmentFlags where
  "ExtendedLookup = 0b10000000"

text \<open>The structure \<^verbatim>\<open>RAWKEYBOARD\<close> of the raw-input interface, field by field.\<close>

record RAWKEYBOARD =
  MakeCode :: "16 word"
  Flags :: "16 word"
  Reserved :: "16 word"
  VKey :: "16 word"
  Message :: "32 word"
  ExtraInformation :: "32 word"

text \<open>
  An aggregate initialiser of \<^verbatim>\<open>RAWKEYBOARD\<close> that names \<^verbatim>\<open>MakeCode\<close>, \<^verbatim>\<open>Flags\<close> and
  \<^verbatim>\<open>VKey\<close>; the members it does not name are zero.
\<close>

abbreviation RAWKEYBOARD_init :: "16 word \<Rightarrow> 16 word \<Rightarrow> 16 word \<Rightarrow> RAWKEYBOARD" where
  "RAWKEYBOARD_init mc fl vk \<equiv>
     \<lparr>MakeCode = mc, Flags = fl, Reserved = 0, VKey = vk, Message = 0, ExtraInformation = 0\<rparr>"

text \<open>\<^verbatim>\<open>class RawKeyboard : public RAWKEYBOARD\<close> adds two members.\<close>

record RawKeyboard = RAWKEYBOARD +
  adjustments :: AdjustmentFlags
  isKeyDown :: bool

text \<open>The constructor \<^verbatim>\<open>RawKeyboard(const RAWKEYBOARD&)\<close>.\<close>

definition RawKeyboard_of :: "RAWKEYBOARD \<Rightarrow> RawKeyboard" where
  "RawKeyboard_of rawkbd =
     \<lparr>MakeCode = MakeCode rawkbd, Flags = Flags rawkbd, Reserved = Reserved rawkbd,
      VKey = VKey rawkbd, Message = Message rawkbd,
      ExtraInformation = ExtraInformation rawkbd,
      adjustments = (if Flags rawkbd AND RI_KEY_E0 \<noteq> 0 then ExtendedLookup else 0),
      isKeyDown = (Flags rawkbd AND RI_KEY_BREAK = 0)\<rparr>"

text \<open>The constructor \<^verbatim>\<open>RawKeyboard(const RAWKEYBOARD&, AdjustmentFlags)\<close>.\<close>

definition RawKeyboard_with :: "RAWKEYBOARD \<Rightarrow> AdjustmentFlags \<Rightarrow> RawKeyboard" where
  "RawKeyboard_with rawkbd adjustmentFlags =
     (RawKeyboard_of rawkbd)\<lparr>adjustments := adjustmentFlags\<rparr>"

text \<open>\<^verbatim>\<open>RawKeyboard::getLookupCode\<close>.\<close>

definition getLookupCode :: "RawKeyboard \<Rightarrow> 16 word" where
  "getLookupCode k =
     MakeCode k OR (if adjustments k AND ExtendedLookup \<noteq> 0 then 0x100 else 0)"

subsection \<open>\<^verbatim>\<open>MainWindow::adjustKeyboardInput\<close>\<close>

text \<open>
  \<^verbatim>\<open>enum class ScanCodeSequence { None, E0, E1 }\<close>, the type of the member
  \<^verbatim>\<open>pendingSequence_\<close>; its \<^verbatim>\<open>None\<close> is written \<open>NoneSeq\<close>.
\<close>

datatype ScanCodeSequence = NoneSeq | E0 | E1

text \<open>
  The \<^verbatim>\<open>switch\<close> on \<^verbatim>\<open>rawKbd.VKey\<close> that ends \<^verbatim>\<open>adjustKeyboardInput\<close>
  (``adjust virtual keys to match reality'').
\<close>

definition adjustVirtualKey :: "RawKeyboard \<Rightarrow> RawKeyboard" where
  "adjustVirtualKey rawKbd =
     (let isE0 = (Flags rawKbd AND RI_KEY_E0 \<noteq> 0) in
      if VKey rawKbd = VK_SHIFT then
        (if MakeCode rawKbd = 0x2a then
           rawKbd\<lparr>VKey := VK_LSHIFT, adjustments := adjustments rawKbd OR VirtualKeyAdjusted\<rparr>
         else if MakeCode rawKbd = 0x36 then
           rawKbd\<lparr>VKey := VK_RSHIFT, adjustments := adjustments rawKbd OR VirtualKeyAdjusted\<rparr>
         else rawKbd)
      else if VKey rawKbd = VK_CONTROL then
        (if isE0 then
           rawKbd\<lparr>VKey := VK_RCONTROL, adjustments := adjustments rawKbd OR VirtualKeyAdjusted\<rparr>
         else rawKbd)
      else if VKey rawKbd = VK_MENU then
        (if isE0 then
           rawKbd\<lparr>VKey := VK_RMENU, adjustments := adjustments rawKbd OR VirtualKeyAdjusted\<rparr>
         else rawKbd)
      else rawKbd)"

text \<open>The \<^verbatim>\<open>if (rawKbd.MakeCode == 0x45)\<close> block: Pause/Break or Num Lock.\<close>

definition adjustMakeCode45 :: "ScanCodeSequence \<Rightarrow> RawKeyboard \<Rightarrow> RawKeyboard" where
  "adjustMakeCode45 pendingSequence rawKbd =
     (if MakeCode rawKbd = 0x45 then
        (if pendingSequence = E1 then
           rawKbd\<lparr>VKey := VK_PAUSE, adjustments := adjustments rawKbd OR VirtualKeyAdjusted\<rparr>
         else rawKbd\<lparr>adjustments := adjustments rawKbd OR ExtendedLookup\<rparr>)
      else rawKbd)"

text \<open>
  \<^verbatim>\<open>adjustKeyboardInput\<close> changes its argument in place, reads and writes the member
  \<^verbatim>\<open>pendingSequence_\<close> and returns a \<^verbatim>\<open>bool\<close>. The model takes the member and the
  argument and returns the \<^verbatim>\<open>bool\<close>, the argument as the call leaves it and the member
  as the call leaves it. The platform function \<^verbatim>\<open>MapVirtualKey(uCode, uMapType)\<close> is a
  parameter; it returns 0 when there is no translation.
\<close>

definition adjustKeyboardInput ::
  "(32 word \<Rightarrow> 32 word \<Rightarrow> 32 word) \<Rightarrow> ScanCodeSequence \<Rightarrow> RawKeyboard
     \<Rightarrow> bool \<times> RawKeyboard \<times> ScanCodeSequence" where
  "adjustKeyboardInput MapVirtualKey pendingSequence_member rawKbd =
     (if MakeCode rawKbd = KEYBOARD_OVERRUN_MAKE_CODE then (False, rawKbd, pendingSequence_member)
      else if Flags rawKbd AND RI_KEY_E1 \<noteq> 0 then (False, rawKbd, E1)
      else if Flags rawKbd AND RI_KEY_E0 \<noteq> 0 \<and> MakeCode rawKbd = 0x2A then (False, rawKbd, E0)
      else
        let pendingSequence = pendingSequence_member;
            rawKbd1 =
              (if MakeCode rawKbd = 0 then
                 rawKbd\<lparr>MakeCode := LOWORD (MapVirtualKey (ucast (VKey rawKbd)) MAPVK_VK_TO_VSC_EX),
                        adjustments := adjustments rawKbd OR MakeCodeMapped\<rparr>
               else rawKbd)
        in if MakeCode rawKbd1 = 0 then (False, rawKbd1, NoneSeq)
           else (True, adjustVirtualKey (adjustMakeCode45 pendingSequence rawKbd1), NoneSeq))"

text \<open>
  The keyboard branch of \<^verbatim>\<open>MainWindow::onInput\<close> with the adjustment button checked:
  the event is constructed from the raw record, adjusted, and added to the list view
  only when \<^verbatim>\<open>adjustKeyboardInput\<close> returns \<^verbatim>\<open>true\<close>. The result is the event added,
  if any, and the new value of \<^verbatim>\<open>pendingSequence_\<close>.
\<close>

definition onInputKeyboard ::
  "(32 word \<Rightarrow> 32 word \<Rightarrow> 32 word) \<Rightarrow> ScanCodeSequence \<Rightarrow> RAWKEYBOARD
     \<Rightarrow> RawKeyboard option \<times> ScanCodeSequence" where
  "onInputKeyboard MapVirtualKey pendingSequence_member raw =
     (case adjustKeyboardInput MapVirtualKey pendingSequence_member (RawKeyboard_of raw) of
        (ok, rawKbd, pending) \<Rightarrow> (if ok then Some rawKbd else None, pending))"

subsection \<open>The union \<^verbatim>\<open>PackedRawKeyboard\<close>\<close>

text \<open>
  The union overlays \<^verbatim>\<open>lParam\<close> with the structure \<^verbatim>\<open>bits\<close> of four 8-bit bit-fields,
  declared in the order \<^verbatim>\<open>makeCode\<close>, \<^verbatim>\<open>flags\<close>, \<^verbatim>\<open>vKey\<close>, \<^verbatim>\<open>adjustments\<close>. The model
  of the union is the 32-bit word that the bit-fields occupy (the ``32-bit lParam'' of the
  static assertion). The compilers for Windows allocate bit-fields from the least
  significant bit, so the field declared first is the lowest byte. Reading a bit-field
  gives its 8 bits, zero-extended.
\<close>

type_synonym PackedRawKeyboard = "32 word"

definition bits_makeCode :: "PackedRawKeyboard \<Rightarrow> 32 word" where
  "bits_makeCode p = p AND 0xFF"

definition bits_flags :: "PackedRawKeyboard \<Rightarrow> 32 word" where
  "bits_flags p = drop_bit 8 p AND 0xFF"

definition bits_vKey :: "PackedRawKeyboard \<Rightarrow> 32 word" where
  "bits_vKey p = drop_bit 16 p AND 0xFF"

definition bits_adjustments :: "PackedRawKeyboard \<Rightarrow> AdjustmentFlags" where
  "bits_adjustments p = drop_bit 24 p AND 0xFF"

text \<open>
  The constructor \<^verbatim>\<open>PackedRawKeyboard(const RawKeyboard&)\<close>: each initialiser is
  converted to its 8-bit bit-field, which keeps the low 8 bits.
\<close>

definition PackedRawKeyboard_of :: "RawKeyboard \<Rightarrow> PackedRawKeyboard" where
  "PackedRawKeyboard_of rawkbd =
     (ucast (MakeCode rawkbd) AND 0xFF) OR
     push_bit 8 (ucast (Flags rawkbd) AND 0xFF) OR
     push_bit 16 (ucast (VKey rawkbd) AND 0xFF) OR
     push_bit 24 (adjustments rawkbd AND 0xFF)"

text \<open>
  \<^verbatim>\<open>PackedRawKeyboard::getRawKeyboard\<close>: the three fields are read into a
  \<^verbatim>\<open>RAWKEYBOARD\<close> and the adjustments are passed to the second constructor.
\<close>

definition getRawKeyboard :: "PackedRawKeyboard \<Rightarrow> RawKeyboard" where
  "getRawKeyboard p =
     RawKeyboard_with
       (RAWKEYBOARD_init (ucast (bits_makeCode p)) (ucast (bits_flags p)) (ucast (bits_vKey p)))
       (bits_adjustments p)"

subsection \<open>Text helpers\<close>

text \<open>
  \<^verbatim>\<open>isWhitespace<char>\<close> is \<^verbatim>\<open>isspace\<close> on the character as \<^verbatim>\<open>unsigned char\<close>: in the
  C locale the space and the five control characters from 9 to 13.
\<close>

definition isWhitespace :: "char \<Rightarrow> bool" where
  "isWhitespace ch =
     (of_char ch = (0x20::int) \<or> (0x09 \<le> (of_char ch :: int) \<and> (of_char ch :: int) \<le> 0x0D))"

text \<open>
  \<^verbatim>\<open>std::views::split\<close> on one separator character: the pieces between separators,
  empty ones included. (For the empty text the view has no piece and the model has one
  empty piece; \<^verbatim>\<open>splitAndTrimTrailing\<close> drops empty pieces, so both give nothing.)
\<close>

fun split_view :: "char \<Rightarrow> string \<Rightarrow> string list" where
  "split_view separator [] = [[]]"
| "split_view separator (c # cs) =
     (if c = separator then [] # split_view separator cs
      else (case split_view separator cs of
              [] \<Rightarrow> [[c]]
            | piece # pieces \<Rightarrow> (c # piece) # pieces))"

definition trimTrailing :: "string \<Rightarrow> string" where
  "trimTrailing subrange = rev (dropWhile isWhitespace (rev subrange))"

definition splitAndTrimTrailing :: "string \<Rightarrow> char \<Rightarrow> string list" where
  "splitAndTrimTrailing text separator =
     filter (\<lambda>sv. sv \<noteq> []) (map trimTrailing (split_view separator text))"

definition splitOnce :: "string \<Rightarrow> char \<Rightarrow> string \<times> string" where
  "splitOnce text separator =
     (if text = [] then ([], [])
      else if separator \<notin> set text then (text, [])
      else (takeWhile (\<lambda>c. c \<noteq> separator) text,
            tl (dropWhile (\<lambda>c. c \<noteq> separator) text)))"

text \<open>
  \<^verbatim>\<open>toIntegralNumber<T>\<close> copies the range into a zero-terminated buffer, calls
  \<^verbatim>\<open>strtoll\<close> on it and converts the \<^verbatim>\<open>long long\<close> to \<^verbatim>\<open>T\<close>, which keeps the low
  bits. The C library function \<^verbatim>\<open>strtoll(nptr, nullptr, base)\<close> is a parameter; it sees
  the characters before the first zero character.
\<close>

type_synonym strtoll_fn = "string \<Rightarrow> int \<Rightarrow> 64 word"

definition zeroTerminated :: "string \<Rightarrow> string" where
  "zeroTerminated rng = takeWhile (\<lambda>c. c \<noteq> CHR 0x00) rng"

definition toUShort :: "strtoll_fn \<Rightarrow> string \<Rightarrow> int \<Rightarrow> 16 word" where
  "toUShort strtoll rng base = ucast (strtoll (zeroTerminated rng) base)"

definition toInt :: "strtoll_fn \<Rightarrow> string \<Rightarrow> int \<Rightarrow> 32 word" where
  "toInt strtoll rng base = ucast (strtoll (zeroTerminated rng) base)"

text \<open>
  \<^verbatim>\<open>toWString\<close> converts UTF-8 bytes to wide characters with the platform function
  \<^verbatim>\<open>MultiByteToWideChar(CP_UTF8, 0, ...)\<close>, a parameter here that gives the converted
  characters, none when the conversion fails.
\<close>

type_synonym wstring = "16 word list"

definition toWString :: "(string \<Rightarrow> wstring) \<Rightarrow> string \<Rightarrow> wstring" where
  "toWString MultiByteToWideChar rng =
     (let count = length (MultiByteToWideChar rng)
      in if count = 0 then [] else MultiByteToWideChar rng)"

subsection \<open>The key tables\<close>

text \<open>\<^verbatim>\<open>struct KeyCodes\<close>; its constructor converts the three names with \<^verbatim>\<open>toWString\<close>.\<close>

record KeyCodes =
  keyCode :: "32 word"
  sml :: wstring
  ray :: wstring
  glfw :: wstring

definition KeyCodes_of ::
  "(string \<Rightarrow> wstring) \<Rightarrow> 32 word \<Rightarrow> string \<Rightarrow> string \<Rightarrow> string \<Rightarrow> KeyCodes" where
  "KeyCodes_of mb2wc kc smlView rayView glfwView =
     \<lparr>keyCode = kc, sml = toWString mb2wc smlView, ray = toWString mb2wc rayView,
      glfw = toWString mb2wc glfwView\<rparr>"

text \<open>
  \<^verbatim>\<open>std::map::emplace\<close> inserts the pair only when the map has no element with that key;
  otherwise the map is left as it is.
\<close>

definition emplace :: "('k \<rightharpoonup> 'v) \<Rightarrow> 'k \<Rightarrow> 'v \<Rightarrow> ('k \<rightharpoonup> 'v)" where
  "emplace m k v = (case m k of None \<Rightarrow> m(k \<mapsto> v) | Some old \<Rightarrow> m)"

text \<open>The key and the value that the body of the scan-code loop builds from one line.\<close>

definition scanCodeEntry ::
  "strtoll_fn \<Rightarrow> (string \<Rightarrow> wstring) \<Rightarrow> string \<Rightarrow> 16 word \<times> KeyCodes" where
  "scanCodeEntry strtoll mb2wc mappingView =
     (let (scanCodeView, codeAndMoreView) = splitOnce mappingView CHR ''='';
          (keyCodeView, smlAndMoreView) = splitOnce codeAndMoreView CHR '','';
          (smlView, raylibAndMoreView) = splitOnce smlAndMoreView CHR '','';
          (raylibView, glfwView) = splitOnce raylibAndMoreView CHR '',''
      in (toUShort strtoll scanCodeView 16,
          KeyCodes_of mb2wc (toInt strtoll keyCodeView 10) smlView raylibView glfwView))"

text \<open>The scan-code loop of the \<^verbatim>\<open>MainWindow\<close> constructor, from the empty map.\<close>

definition loadScanCodeMapping ::
  "strtoll_fn \<Rightarrow> (string \<Rightarrow> wstring) \<Rightarrow> string \<Rightarrow> (16 word \<rightharpoonup> KeyCodes)" where
  "loadScanCodeMapping strtoll mb2wc scanCodeMapping =
     foldl (\<lambda>scanCodeMapping_member mappingView.
              (case scanCodeEntry strtoll mb2wc mappingView of
                 (k, v) \<Rightarrow> emplace scanCodeMapping_member k v))
       Map.empty (splitAndTrimTrailing scanCodeMapping CHR 0x0A)"

text \<open>The key and the value that the body of the virtual-key loop builds from one line.\<close>

definition vkeyEntry ::
  "strtoll_fn \<Rightarrow> (string \<Rightarrow> wstring) \<Rightarrow> string \<Rightarrow> 16 word \<times> (wstring \<times> wstring)" where
  "vkeyEntry strtoll mb2wc mappingView =
     (let (keyView, valView) = splitOnce mappingView CHR ''='';
          (vkNameView, kNameView) = splitOnce valView CHR '',''
      in (toUShort strtoll keyView 16,
          (toWString mb2wc vkNameView, toWString mb2wc kNameView)))"

text \<open>The virtual-key loop of the \<^verbatim>\<open>MainWindow\<close> constructor, from the empty map.\<close>

definition loadVkeyMapping ::
  "strtoll_fn \<Rightarrow> (string \<Rightarrow> wstring) \<Rightarrow> string \<Rightarrow> (16 word \<rightharpoonup> wstring \<times> wstring)" where
  "loadVkeyMapping strtoll mb2wc vkeyMapping =
     foldl (\<lambda>vkeyMapping_member mappingView.
              (case vkeyEntry strtoll mb2wc mappingView of
                 (k, v) \<Rightarrow> emplace vkeyMapping_member k v))
       Map.empty (splitAndTrimTrailing vkeyMapping CHR 0x0A)"

subsection \<open>The lookups\<close>

text \<open>
  \<^verbatim>\<open>std::map::find\<close> returns an iterator: to the element with the key, or the
  past-the-end iterator, which refers to no element. The model of an iterator is the
  element it refers to, \<open>None\<close> for the past-the-end iterator.
\<close>

definition map_find :: "('k \<rightharpoonup> 'v) \<Rightarrow> 'k \<Rightarrow> ('k \<times> 'v) option" where
  "map_find m k = (case m k of None \<Rightarrow> None | Some v \<Rightarrow> Some (k, v))"

text \<open>\<^verbatim>\<open>MainWindow::lookupVirtualKey\<close>.\<close>

definition lookupVirtualKey ::
  "(16 word \<rightharpoonup> wstring \<times> wstring) \<Rightarrow> RawKeyboard \<Rightarrow> (16 word \<times> wstring \<times> wstring) option" where
  "lookupVirtualKey vkeyMapping_member rawKbd =
     (case map_find vkeyMapping_member (VKey rawKbd) of
        None \<Rightarrow> map_find vkeyMapping_member 0xff
      | Some it \<Rightarrow> Some it)"

text \<open>\<^verbatim>\<open>MainWindow::lookupKeyCode\<close>.\<close>

definition lookupKeyCode ::
  "(16 word \<rightharpoonup> KeyCodes) \<Rightarrow> RawKeyboard \<Rightarrow> (16 word \<times> KeyCodes) option" where
  "lookupKeyCode scanCodeMapping_member rawKbd =
     (case map_find scanCodeMapping_member (getLookupCode rawKbd) of
        None \<Rightarrow> map_find scanCodeMapping_member 0x000
      | Some it \<Rightarrow> Some it)"

subsection \<open>Platform functions for concrete inputs\<close>

text \<open>
  Modelled from the spec: \<^verbatim>\<open>strtoll\<close> belongs to the C library and
  \<^verbatim>\<open>MultiByteToWideChar\<close> to the Windows API, neither is in the repository; the spec
  says that a malformed numeric field parses to 0. The definitions below are only used
  to run the loaders on concrete texts. \<open>strtoll_C\<close> follows the C standard for a base
  from 2 to 36 and a null end pointer: leading white space, an optional sign, for base 16
  an optional \<^verbatim>\<open>0x\<close>, then the longest run of digits of the base; no digits give
  0 and a value out of range gives \<^verbatim>\<open>LLONG_MAX\<close> or \<^verbatim>\<open>LLONG_MIN\<close>.
  \<open>ascii_wide\<close> is the UTF-8 conversion on 7-bit text, one wide character per byte.
\<close>

definition digitValue :: "char \<Rightarrow> int option" where
  "digitValue c =
     (let n = (of_char c :: int) in
      if 0x30 \<le> n \<and> n \<le> 0x39 then Some (n - 0x30)
      else if 0x61 \<le> n \<and> n \<le> 0x7A then Some (n - 0x61 + 10)
      else if 0x41 \<le> n \<and> n \<le> 0x5A then Some (n - 0x41 + 10)
      else None)"

fun strtoll_digits :: "int \<Rightarrow> int \<Rightarrow> string \<Rightarrow> int" where
  "strtoll_digits base acc [] = acc"
| "strtoll_digits base acc (c # cs) =
     (case digitValue c of
        None \<Rightarrow> acc
      | Some d \<Rightarrow> if d < base then strtoll_digits base (acc * base + d) cs else acc)"

definition strtoll_C :: strtoll_fn where
  "strtoll_C nptr base =
     (let s = dropWhile isWhitespace nptr;
          negative = (s \<noteq> [] \<and> hd s = CHR ''-'');
          s1 = (if s \<noteq> [] \<and> (hd s = CHR ''-'' \<or> hd s = CHR ''+'') then tl s else s);
          s2 = (if base = 16 \<and> (take 2 s1 = ''0x'' \<or> take 2 s1 = ''0X'') then drop 2 s1 else s1);
          n = strtoll_digits base 0 s2
      in if negative then (if 2 ^ 63 < n then 0x8000000000000000 else - word_of_int n)
         else (if 2 ^ 63 \<le> n then 0x7FFFFFFFFFFFFFFF else word_of_int n))"

definition ascii_wide :: "string \<Rightarrow> wstring" where
  "ascii_wide rng = map (\<lambda>c. of_char c) rng"

section \<open>Properties\<close>

lemmas winuser_defs =
  KEYBOARD_OVERRUN_MAKE_CODE_def RI_KEY_BREAK_def RI_KEY_E0_def RI_KEY_E1_def
  MAPVK_VK_TO_VSC_EX_def VK_SHIFT_def VK_CONTROL_def VK_MENU_def VK_PAUSE_def
  VK_LSHIFT_def VK_RSHIFT_def VK_RCONTROL_def VK_RMENU_def

lemmas AdjustmentFlags_defs = MakeCodeMapped_def VirtualKeyAdjusted_def ExtendedLookup_def

subsection \<open>The normaliser\<close>

lemma or_and_nonzero:
  fixes a b m :: "'a::len word"
  assumes "a AND m \<noteq> 0"
  shows "(a OR b) AND m \<noteq> 0"
proof
  assume "(a OR b) AND m = 0"
  then have "(a AND m) OR (b AND m) = 0" by (simp add: bit.conj_disj_distrib2)
  then have "a AND m = 0" by (simp add: or_eq_0_iff)
  with assms show False by simp
qed

lemma or_and_self_nonzero:
  fixes a m :: "'a::len word"
  assumes "m \<noteq> 0"
  shows "(a OR m) AND m \<noteq> 0"
proof -
  have "(a OR m) AND m = m" by (rule bit_word_eqI) (auto simp: bit_simps)
  with assms show ?thesis by simp
qed

lemma MakeCode_adjustVirtualKey [simp]: "MakeCode (adjustVirtualKey k) = MakeCode k"
  by (simp add: adjustVirtualKey_def Let_def)

lemma MakeCode_adjustMakeCode45 [simp]: "MakeCode (adjustMakeCode45 p k) = MakeCode k"
  by (simp add: adjustMakeCode45_def)

lemma Flags_adjustVirtualKey [simp]: "Flags (adjustVirtualKey k) = Flags k"
  by (simp add: adjustVirtualKey_def Let_def)

lemma Flags_adjustMakeCode45 [simp]: "Flags (adjustMakeCode45 p k) = Flags k"
  by (simp add: adjustMakeCode45_def)

lemma adjustments_adjustVirtualKey_mono:
  "adjustments k AND m \<noteq> 0 \<Longrightarrow> adjustments (adjustVirtualKey k) AND m \<noteq> 0"
  by (simp add: adjustVirtualKey_def Let_def or_and_nonzero)

lemma adjustments_adjustMakeCode45_mono:
  "adjustments k AND m \<noteq> 0 \<Longrightarrow> adjustments (adjustMakeCode45 p k) AND m \<noteq> 0"
  by (simp add: adjustMakeCode45_def or_and_nonzero)

lemma adjustVirtualKey_no_E0_45:
  "Flags k AND RI_KEY_E0 = 0 \<Longrightarrow> MakeCode k = 0x45 \<Longrightarrow> adjustVirtualKey k = k"
  by (simp add: adjustVirtualKey_def Let_def)

lemma ExtendedLookup_or_VirtualKeyAdjusted:
  "(a OR VirtualKeyAdjusted) AND ExtendedLookup = a AND ExtendedLookup"
proof -
  have "VirtualKeyAdjusted AND ExtendedLookup = 0"
    by (simp add: VirtualKeyAdjusted_def ExtendedLookup_def)
  then show ?thesis by (simp add: bit.conj_disj_distrib2)
qed

lemma ExtendedLookup_or_MakeCodeMapped:
  "(a OR MakeCodeMapped) AND ExtendedLookup = a AND ExtendedLookup"
proof -
  have "MakeCodeMapped AND ExtendedLookup = 0"
    by (simp add: MakeCodeMapped_def ExtendedLookup_def)
  then show ?thesis by (simp add: bit.conj_disj_distrib2)
qed

lemma ExtendedLookup_adjustVirtualKey:
  "adjustments (adjustVirtualKey k) AND ExtendedLookup = adjustments k AND ExtendedLookup"
  by (simp add: adjustVirtualKey_def Let_def ExtendedLookup_or_VirtualKeyAdjusted)

lemma getLookupCode_adjustVirtualKey:
  "getLookupCode (adjustVirtualKey k) = getLookupCode k"
  by (simp add: getLookupCode_def ExtendedLookup_adjustVirtualKey)

lemma ExtendedLookup_nonzero: "ExtendedLookup \<noteq> 0"
  by (simp add: ExtendedLookup_def)

lemma getLookupCode_adjustMakeCode45:
  "getLookupCode (adjustMakeCode45 p k) =
     (if MakeCode k = 0x45 \<and> p \<noteq> E1 then MakeCode k OR 0x100 else getLookupCode k)"
  by (simp add: getLookupCode_def adjustMakeCode45_def ExtendedLookup_or_VirtualKeyAdjusted
      or_and_self_nonzero ExtendedLookup_nonzero)

lemma getLookupCode_MakeCodeMapped:
  "getLookupCode (k\<lparr>MakeCode := c, adjustments := adjustments k OR MakeCodeMapped\<rparr>) =
     c OR (if adjustments k AND ExtendedLookup \<noteq> 0 then 0x100 else 0)"
  by (simp add: getLookupCode_def ExtendedLookup_or_MakeCodeMapped)

lemma getLookupCode_adjustKeyboardInput:
  assumes "adjustKeyboardInput mvk pending k = (True, e, p)"
  shows "getLookupCode e =
           (if adjustments k AND ExtendedLookup \<noteq> 0 \<or> (MakeCode e = 0x45 \<and> pending \<noteq> E1)
            then MakeCode e OR 0x100 else MakeCode e)"
proof (cases "MakeCode k = 0")
  case True
  let ?k1 = "k\<lparr>MakeCode := LOWORD (mvk (ucast (VKey k)) MAPVK_VK_TO_VSC_EX),
                adjustments := adjustments k OR MakeCodeMapped\<rparr>"
  from assms True have e: "e = adjustVirtualKey (adjustMakeCode45 pending ?k1)"
    by (simp add: adjustKeyboardInput_def Let_def split: if_splits)
  show ?thesis
    unfolding e getLookupCode_adjustVirtualKey getLookupCode_adjustMakeCode45
      getLookupCode_MakeCodeMapped
    by simp
next
  case False
  with assms have e: "e = adjustVirtualKey (adjustMakeCode45 pending k)"
    by (simp add: adjustKeyboardInput_def Let_def split: if_splits)
  show ?thesis
    unfolding e getLookupCode_adjustVirtualKey getLookupCode_adjustMakeCode45
    by (simp add: getLookupCode_def)
qed

text \<open>
  C6. An event whose make code is the overrun marker is suppressed and leaves the pending
  sequence as it was, whatever the pending sequence, the flags and the virtual key are:
  \<^verbatim>\<open>adjustKeyboardInput\<close> returns \<^verbatim>\<open>false\<close> with the member untouched, so no event is
  added.
\<close>

theorem overrun_suppressed_pending_unchanged:
  "MakeCode raw = KEYBOARD_OVERRUN_MAKE_CODE \<Longrightarrow>
     onInputKeyboard mvk pending raw = (None, pending) \<and>
     fst (adjustKeyboardInput mvk pending (RawKeyboard_of raw)) = False \<and>
     snd (snd (adjustKeyboardInput mvk pending (RawKeyboard_of raw))) = pending"
  by (simp add: onInputKeyboard_def adjustKeyboardInput_def RawKeyboard_of_def)

theorem overrun_suppressed_pending_unchanged_witness:
  "MakeCode \<lparr>MakeCode = 0xFF, Flags = 4, Reserved = 0, VKey = 0x13, Message = 0,
      ExtraInformation = 0\<rparr> = KEYBOARD_OVERRUN_MAKE_CODE \<and>
   onInputKeyboard (\<lambda>uCode uMapType. 0) E0
     \<lparr>MakeCode = 0xFF, Flags = 4, Reserved = 0, VKey = 0x13, Message = 0,
      ExtraInformation = 0\<rparr> = (None, E0)"
  using overrun_suppressed_pending_unchanged
    [where raw = "\<lparr>MakeCode = 0xFF, Flags = 4, Reserved = 0, VKey = 0x13, Message = 0,
      ExtraInformation = 0\<rparr>" and mvk = "\<lambda>uCode uMapType. 0" and pending = E0]
  by (simp add: KEYBOARD_OVERRUN_MAKE_CODE_def)

text \<open>
  C4 (as stated, refuted). The claim lets the event with the extended-1 flag have any
  make code. When that make code is the overrun marker, the event is dropped by the
  overrun test before the flag is looked at, and nothing becomes pending. From no pending
  sequence, such an event followed by a Num Lock event (make code \<^verbatim>\<open>0x45\<close>, no prefix
  flag, virtual key \<^verbatim>\<open>0x90\<close>) gives an event that keeps the virtual key \<^verbatim>\<open>0x90\<close>, which
  is not \<^verbatim>\<open>VK_PAUSE\<close>, and whose adjustments are \<^verbatim>\<open>ExtendedLookup\<close> alone.
\<close>

theorem pause_numlock_sequence_counterexample:
  "Flags \<lparr>MakeCode = 0xFF, Flags = 4, Reserved = 0, VKey = 0, Message = 0,
      ExtraInformation = 0\<rparr> AND RI_KEY_E1 \<noteq> 0 \<and>
   onInputKeyboard (\<lambda>uCode uMapType. 0) NoneSeq
     \<lparr>MakeCode = 0xFF, Flags = 4, Reserved = 0, VKey = 0, Message = 0,
      ExtraInformation = 0\<rparr> = (None, NoneSeq) \<and>
   onInputKeyboard (\<lambda>uCode uMapType. 0) NoneSeq
     \<lparr>MakeCode = 0x45, Flags = 0, Reserved = 0, VKey = 0x90, Message = 0,
      ExtraInformation = 0\<rparr> =
     (Some \<lparr>MakeCode = 0x45, Flags = 0, Reserved = 0, VKey = 0x90, Message = 0,
        ExtraInformation = 0, adjustments = 0x80, isKeyDown = True\<rparr>, NoneSeq) \<and>
   (0x90 :: 16 word) \<noteq> VK_PAUSE \<and> (0x80 :: 32 word) AND VirtualKeyAdjusted = 0"
  by (simp add: onInputKeyboard_def adjustKeyboardInput_def RawKeyboard_of_def Let_def
      adjustMakeCode45_def adjustVirtualKey_def winuser_defs AdjustmentFlags_defs)

text \<open>
  C4 (amended). From every pending sequence, an event with the extended-1 flag whose
  make code is not the overrun marker is suppressed, and a following event with make code
  \<^verbatim>\<open>0x45\<close> and no prefix flag is returned with \<^verbatim>\<open>VKey = VK_PAUSE\<close> and
  \<^verbatim>\<open>VirtualKeyAdjusted\<close> set. An event with make code \<^verbatim>\<open>0x45\<close> and no prefix flag that
  arrives when no extended-1 sequence is pending (in particular when nothing is pending)
  is returned with \<^verbatim>\<open>ExtendedLookup\<close> set and its virtual key unchanged.
\<close>

theorem pause_numlock_sequence:
  assumes "Flags r1 AND RI_KEY_E1 \<noteq> 0" and "MakeCode r1 \<noteq> KEYBOARD_OVERRUN_MAKE_CODE"
    and "MakeCode r2 = 0x45" and "Flags r2 AND RI_KEY_E1 = 0" and "Flags r2 AND RI_KEY_E0 = 0"
    and "pending' \<noteq> E1"
  shows "onInputKeyboard mvk pending r1 = (None, E1) \<and>
         (\<exists>e. onInputKeyboard mvk (snd (onInputKeyboard mvk pending r1)) r2 = (Some e, NoneSeq) \<and>
              VKey e = VK_PAUSE \<and> adjustments e AND VirtualKeyAdjusted \<noteq> 0) \<and>
         (\<exists>e. onInputKeyboard mvk pending' r2 = (Some e, NoneSeq) \<and>
              VKey e = VKey r2 \<and> adjustments e AND ExtendedLookup \<noteq> 0)"
proof -
  have first: "onInputKeyboard mvk pending r1 = (None, E1)"
    using assms(1,2) by (simp add: onInputKeyboard_def adjustKeyboardInput_def RawKeyboard_of_def)
  have second: "\<exists>e. onInputKeyboard mvk E1 r2 = (Some e, NoneSeq) \<and>
              VKey e = VK_PAUSE \<and> adjustments e AND VirtualKeyAdjusted \<noteq> 0"
    using assms(3,4,5)
    by (simp add: onInputKeyboard_def adjustKeyboardInput_def RawKeyboard_of_def Let_def
        KEYBOARD_OVERRUN_MAKE_CODE_def adjustMakeCode45_def adjustVirtualKey_no_E0_45
        or_and_self_nonzero VirtualKeyAdjusted_def)
  have third: "\<exists>e. onInputKeyboard mvk pending' r2 = (Some e, NoneSeq) \<and>
              VKey e = VKey r2 \<and> adjustments e AND ExtendedLookup \<noteq> 0"
    using assms(3,4,5,6)
    by (simp add: onInputKeyboard_def adjustKeyboardInput_def RawKeyboard_of_def Let_def
        KEYBOARD_OVERRUN_MAKE_CODE_def adjustMakeCode45_def adjustVirtualKey_no_E0_45
        or_and_self_nonzero ExtendedLookup_def)
  from first second third show ?thesis by simp
qed

theorem pause_numlock_sequence_witness:
  "Flags (RAWKEYBOARD_init 0x1D 4 0x13) AND RI_KEY_E1 \<noteq> 0 \<and>
   MakeCode (RAWKEYBOARD_init 0x1D 4 0x13) \<noteq> KEYBOARD_OVERRUN_MAKE_CODE \<and>
   MakeCode (RAWKEYBOARD_init 0x45 0 0x90) = 0x45 \<and>
   Flags (RAWKEYBOARD_init 0x45 0 0x90) AND RI_KEY_E1 = 0 \<and>
   Flags (RAWKEYBOARD_init 0x45 0 0x90) AND RI_KEY_E0 = 0 \<and>
   NoneSeq \<noteq> E1 \<and>
   onInputKeyboard (\<lambda>uCode uMapType. 0) E0 (RAWKEYBOARD_init 0x1D 4 0x13) = (None, E1) \<and>
   onInputKeyboard (\<lambda>uCode uMapType. 0) E1 (RAWKEYBOARD_init 0x45 0 0x90) =
     (Some (RawKeyboard_with (RAWKEYBOARD_init 0x45 0 0x13) VirtualKeyAdjusted), NoneSeq) \<and>
   onInputKeyboard (\<lambda>uCode uMapType. 0) NoneSeq (RAWKEYBOARD_init 0x45 0 0x90) =
     (Some (RawKeyboard_with (RAWKEYBOARD_init 0x45 0 0x90) ExtendedLookup), NoneSeq)"
  using pause_numlock_sequence
    [where ?r1.0 = "RAWKEYBOARD_init 0x1D 4 0x13" and ?r2.0 = "RAWKEYBOARD_init 0x45 0 0x90"
      and pending' = NoneSeq and mvk = "\<lambda>uCode uMapType. 0" and pending = E0]
  by (simp add: onInputKeyboard_def adjustKeyboardInput_def RawKeyboard_of_def
      RawKeyboard_with_def Let_def adjustMakeCode45_def adjustVirtualKey_def winuser_defs
      AdjustmentFlags_defs)

text \<open>
  C7. For an event with make code 0 and without the extended-1 flag (with make code 0 it
  is neither the overrun marker nor the fake left shift): when the low word of
  \<^verbatim>\<open>MapVirtualKey(VKey, MAPVK_VK_TO_VSC_EX)\<close> is not 0, the event is returned with that
  low word as its make code and with \<^verbatim>\<open>MakeCodeMapped\<close> set; when it is 0, which is also
  what the platform function returns when it has no translation, the event is suppressed.
  In both cases the pending sequence is consumed, and nothing else depends on the
  translation.
\<close>

theorem zero_make_code_recovered_or_suppressed:
  assumes "MakeCode raw = 0" and "Flags raw AND RI_KEY_E1 = 0"
  shows "(LOWORD (mvk (ucast (VKey raw)) MAPVK_VK_TO_VSC_EX) \<noteq> 0 \<longrightarrow>
           (\<exists>e. onInputKeyboard mvk pending raw = (Some e, NoneSeq) \<and>
                MakeCode e = LOWORD (mvk (ucast (VKey raw)) MAPVK_VK_TO_VSC_EX) \<and>
                adjustments e AND MakeCodeMapped \<noteq> 0)) \<and>
         (LOWORD (mvk (ucast (VKey raw)) MAPVK_VK_TO_VSC_EX) = 0 \<longrightarrow>
           onInputKeyboard mvk pending raw = (None, NoneSeq))"
  using assms
  by (simp add: onInputKeyboard_def adjustKeyboardInput_def RawKeyboard_of_def Let_def
      KEYBOARD_OVERRUN_MAKE_CODE_def adjustments_adjustVirtualKey_mono
      adjustments_adjustMakeCode45_mono or_and_self_nonzero MakeCodeMapped_def)


theorem zero_make_code_recovered_or_suppressed_witness:
  "MakeCode (RAWKEYBOARD_init 0 1 0x41) = 0 \<and>
   Flags (RAWKEYBOARD_init 0 1 0x41) AND RI_KEY_E1 = 0 \<and>
   LOWORD 0x1E \<noteq> 0 \<and> LOWORD 0 = 0 \<and>
   onInputKeyboard (\<lambda>uCode uMapType. 0x1E) E0 (RAWKEYBOARD_init 0 1 0x41) =
     (Some (RawKeyboard_with (RAWKEYBOARD_init 0x1E 1 0x41) MakeCodeMapped), NoneSeq) \<and>
   onInputKeyboard (\<lambda>uCode uMapType. 0) E0 (RAWKEYBOARD_init 0 1 0x41) = (None, NoneSeq)"
  using zero_make_code_recovered_or_suppressed
      [where raw = "RAWKEYBOARD_init 0 1 0x41" and mvk = "\<lambda>uCode uMapType. 0x1E"
        and pending = E0]
    zero_make_code_recovered_or_suppressed
      [where raw = "RAWKEYBOARD_init 0 1 0x41" and mvk = "\<lambda>uCode uMapType. 0"
        and pending = E0]
  by (simp add: onInputKeyboard_def adjustKeyboardInput_def RawKeyboard_of_def
      RawKeyboard_with_def Let_def adjustMakeCode45_def adjustVirtualKey_def winuser_defs
      AdjustmentFlags_defs LOWORD_def)

lemma adjustVirtualKey_cases:
  "(VKey k = VK_SHIFT \<and> MakeCode k = 0x2A \<longrightarrow>
      VKey (adjustVirtualKey k) = VK_LSHIFT \<and>
      adjustments (adjustVirtualKey k) = adjustments k OR VirtualKeyAdjusted) \<and>
   (VKey k = VK_SHIFT \<and> MakeCode k = 0x36 \<longrightarrow>
      VKey (adjustVirtualKey k) = VK_RSHIFT \<and>
      adjustments (adjustVirtualKey k) = adjustments k OR VirtualKeyAdjusted) \<and>
   (VKey k = VK_CONTROL \<and> Flags k AND RI_KEY_E0 \<noteq> 0 \<longrightarrow>
      VKey (adjustVirtualKey k) = VK_RCONTROL \<and>
      adjustments (adjustVirtualKey k) = adjustments k OR VirtualKeyAdjusted) \<and>
   (VKey k = VK_MENU \<and> Flags k AND RI_KEY_E0 \<noteq> 0 \<longrightarrow>
      VKey (adjustVirtualKey k) = VK_RMENU \<and>
      adjustments (adjustVirtualKey k) = adjustments k OR VirtualKeyAdjusted) \<and>
   ((VKey k = VK_CONTROL \<or> VKey k = VK_MENU) \<and> Flags k AND RI_KEY_E0 = 0 \<longrightarrow>
      adjustVirtualKey k = k)"
  by (simp add: adjustVirtualKey_def Let_def VK_SHIFT_def VK_CONTROL_def VK_MENU_def)

lemma VirtualKeyAdjusted_nonzero: "VirtualKeyAdjusted \<noteq> 0"
  by (simp add: VirtualKeyAdjusted_def)

text \<open>
  C5. The \<^verbatim>\<open>switch\<close> on the virtual key at the end of \<^verbatim>\<open>adjustKeyboardInput\<close>, for
  every event that reaches it: the make code is not the overrun marker, the extended-1
  flag is clear, the event is not the fake left shift, and the make code \<open>mc\<close> (the one
  given, or the translated one when 0 was given) is not 0. The event reaches the switch
  with the virtual key \<open>vk\<close> (Pause when the \<^verbatim>\<open>0x45\<close> block has just set it, otherwise
  the one given) and the adjustments \<open>a\<close>. Then \<^verbatim>\<open>adjustKeyboardInput\<close> returns \<^verbatim>\<open>true\<close>
  with an event in which generic Shift with make code \<^verbatim>\<open>0x2A\<close> has become Left-Shift and
  with make code \<^verbatim>\<open>0x36\<close> Right-Shift, generic Control and generic Alt/Menu with the
  extended-0 flag have become Right-Control and Right-Alt, each with
  \<^verbatim>\<open>VirtualKeyAdjusted\<close> added to the adjustments; generic Control and Alt/Menu without
  the extended-0 flag keep their virtual key and the adjustments \<open>a\<close>, so the switch
  sets no flag.
\<close>

theorem virtual_key_disambiguation:
  assumes "MakeCode k \<noteq> KEYBOARD_OVERRUN_MAKE_CODE" and "Flags k AND RI_KEY_E1 = 0"
    and "\<not> (Flags k AND RI_KEY_E0 \<noteq> 0 \<and> MakeCode k = 0x2A)"
    and mc: "mc = (if MakeCode k = 0 then LOWORD (mvk (ucast (VKey k)) MAPVK_VK_TO_VSC_EX)
                   else MakeCode k)"
    and "mc \<noteq> 0"
    and vk: "vk = (if mc = 0x45 \<and> pending = E1 then VK_PAUSE else VKey k)"
    and a: "a = (if MakeCode k = 0 then adjustments k OR MakeCodeMapped else adjustments k) OR
                (if mc = 0x45 then (if pending = E1 then VirtualKeyAdjusted else ExtendedLookup)
                 else 0)"
  shows "\<exists>e. adjustKeyboardInput mvk pending k = (True, e, NoneSeq) \<and>
           MakeCode e = mc \<and> Flags e = Flags k \<and>
           (vk = VK_SHIFT \<and> mc = 0x2A \<longrightarrow>
              VKey e = VK_LSHIFT \<and> adjustments e = a OR VirtualKeyAdjusted \<and>
              adjustments e AND VirtualKeyAdjusted \<noteq> 0) \<and>
           (vk = VK_SHIFT \<and> mc = 0x36 \<longrightarrow>
              VKey e = VK_RSHIFT \<and> adjustments e = a OR VirtualKeyAdjusted \<and>
              adjustments e AND VirtualKeyAdjusted \<noteq> 0) \<and>
           (vk = VK_CONTROL \<and> Flags k AND RI_KEY_E0 \<noteq> 0 \<longrightarrow>
              VKey e = VK_RCONTROL \<and> adjustments e = a OR VirtualKeyAdjusted \<and>
              adjustments e AND VirtualKeyAdjusted \<noteq> 0) \<and>
           (vk = VK_MENU \<and> Flags k AND RI_KEY_E0 \<noteq> 0 \<longrightarrow>
              VKey e = VK_RMENU \<and> adjustments e = a OR VirtualKeyAdjusted \<and>
              adjustments e AND VirtualKeyAdjusted \<noteq> 0) \<and>
           ((vk = VK_CONTROL \<or> vk = VK_MENU) \<and> Flags k AND RI_KEY_E0 = 0 \<longrightarrow>
              VKey e = vk \<and> adjustments e = a)"
proof -
  define k1 where "k1 =
    (if MakeCode k = 0 then
       k\<lparr>MakeCode := LOWORD (mvk (ucast (VKey k)) MAPVK_VK_TO_VSC_EX),
         adjustments := adjustments k OR MakeCodeMapped\<rparr>
     else k)"
  define k2 where "k2 = adjustMakeCode45 pending k1"
  have mc1: "MakeCode k1 = mc" by (simp add: k1_def mc)
  have res: "adjustKeyboardInput mvk pending k = (True, adjustVirtualKey k2, NoneSeq)"
    using assms(1,2,3,5) mc1
    by (simp add: adjustKeyboardInput_def Let_def k2_def k1_def)
  have k2: "MakeCode k2 = mc" "Flags k2 = Flags k" "VKey k2 = vk" "adjustments k2 = a"
    by (simp_all add: k2_def k1_def adjustMakeCode45_def mc vk a)
  show ?thesis
    using adjustVirtualKey_cases [of k2]
    by (simp add: res k2 or_and_self_nonzero VirtualKeyAdjusted_nonzero)
qed

theorem virtual_key_disambiguation_witness:
  "adjustKeyboardInput (\<lambda>uCode uMapType. 0) NoneSeq (RawKeyboard_of (RAWKEYBOARD_init 0x2A 0 0x10)) =
     (True, RawKeyboard_with (RAWKEYBOARD_init 0x2A 0 0xA0) VirtualKeyAdjusted, NoneSeq) \<and>
   adjustKeyboardInput (\<lambda>uCode uMapType. 0x36) E0 (RawKeyboard_of (RAWKEYBOARD_init 0 1 0x10)) =
     (True, RawKeyboard_with (RAWKEYBOARD_init 0x36 1 0xA1)
        (MakeCodeMapped OR VirtualKeyAdjusted), NoneSeq) \<and>
   adjustKeyboardInput (\<lambda>uCode uMapType. 0) NoneSeq (RawKeyboard_of (RAWKEYBOARD_init 0x1D 2 0x11)) =
     (True, RawKeyboard_with (RAWKEYBOARD_init 0x1D 2 0xA3)
        (ExtendedLookup OR VirtualKeyAdjusted), NoneSeq) \<and>
   adjustKeyboardInput (\<lambda>uCode uMapType. 0) NoneSeq (RawKeyboard_of (RAWKEYBOARD_init 0x38 3 0x12)) =
     (True, RawKeyboard_with (RAWKEYBOARD_init 0x38 3 0xA5)
        (ExtendedLookup OR VirtualKeyAdjusted), NoneSeq) \<and>
   adjustKeyboardInput (\<lambda>uCode uMapType. 0) NoneSeq (RawKeyboard_of (RAWKEYBOARD_init 0x1D 0 0x11)) =
     (True, RawKeyboard_with (RAWKEYBOARD_init 0x1D 0 0x11) 0, NoneSeq) \<and>
   adjustKeyboardInput (\<lambda>uCode uMapType. 0) E0 (RawKeyboard_of (RAWKEYBOARD_init 0x38 1 0x12)) =
     (True, RawKeyboard_with (RAWKEYBOARD_init 0x38 1 0x12) 0, NoneSeq) \<and>
   adjustKeyboardInput (\<lambda>uCode uMapType. 0) E1 (RawKeyboard_of (RAWKEYBOARD_init 0x45 2 0x11)) =
     (True, RawKeyboard_with (RAWKEYBOARD_init 0x45 2 0x13)
        (ExtendedLookup OR VirtualKeyAdjusted), NoneSeq) \<and>
   onInputKeyboard (\<lambda>uCode uMapType. 0) NoneSeq (RAWKEYBOARD_init 0x2A 0 0x10) =
     (Some (RawKeyboard_with (RAWKEYBOARD_init 0x2A 0 0xA0) VirtualKeyAdjusted), NoneSeq)"
  using
    virtual_key_disambiguation
      [where k = "RawKeyboard_of (RAWKEYBOARD_init 0x2A 0 0x10)"
        and mvk = "\<lambda>uCode uMapType. 0" and pending = NoneSeq and mc = "0x2A" and vk = "VK_SHIFT"
        and a = "0"]
    virtual_key_disambiguation
      [where k = "RawKeyboard_of (RAWKEYBOARD_init 0 1 0x10)"
        and mvk = "\<lambda>uCode uMapType. 0x36" and pending = E0 and mc = "0x36" and vk = "VK_SHIFT"
        and a = "MakeCodeMapped"]
    virtual_key_disambiguation
      [where k = "RawKeyboard_of (RAWKEYBOARD_init 0x1D 2 0x11)"
        and mvk = "\<lambda>uCode uMapType. 0" and pending = NoneSeq and mc = "0x1D" and vk = "VK_CONTROL"
        and a = "ExtendedLookup"]
    virtual_key_disambiguation
      [where k = "RawKeyboard_of (RAWKEYBOARD_init 0x38 3 0x12)"
        and mvk = "\<lambda>uCode uMapType. 0" and pending = NoneSeq and mc = "0x38" and vk = "VK_MENU"
        and a = "ExtendedLookup"]
    virtual_key_disambiguation
      [where k = "RawKeyboard_of (RAWKEYBOARD_init 0x1D 0 0x11)"
        and mvk = "\<lambda>uCode uMapType. 0" and pending = NoneSeq and mc = "0x1D" and vk = "VK_CONTROL"
        and a = "0"]
    virtual_key_disambiguation
      [where k = "RawKeyboard_of (RAWKEYBOARD_init 0x38 1 0x12)"
        and mvk = "\<lambda>uCode uMapType. 0" and pending = E0 and mc = "0x38" and vk = "VK_MENU"
        and a = "0"]
    virtual_key_disambiguation
      [where k = "RawKeyboard_of (RAWKEYBOARD_init 0x45 2 0x11)"
        and mvk = "\<lambda>uCode uMapType. 0" and pending = E1 and mc = "0x45" and vk = "VK_PAUSE"
        and a = "ExtendedLookup OR VirtualKeyAdjusted"]
  by (simp add: onInputKeyboard_def adjustKeyboardInput_def RawKeyboard_of_def
      RawKeyboard_with_def Let_def adjustMakeCode45_def adjustVirtualKey_def winuser_defs
      AdjustmentFlags_defs LOWORD_def)

text \<open>
  C10. The constructor \<^verbatim>\<open>RawKeyboard(const RAWKEYBOARD&)\<close> sets \<^verbatim>\<open>ExtendedLookup\<close>
  exactly when the raw flags have the extended-0 bit, before \<^verbatim>\<open>adjustKeyboardInput\<close>
  runs: the lookup code of the constructed event is \<^verbatim>\<open>MakeCode | 0x100\<close> with the bit
  and \<^verbatim>\<open>MakeCode\<close> without it. After \<^verbatim>\<open>adjustKeyboardInput\<close> has returned \<^verbatim>\<open>true\<close>,
  the lookup code is \<^verbatim>\<open>MakeCode | 0x100\<close> when the raw flags had the extended-0 bit
  (whatever the make code is) or when the Num Lock case applied (make code \<^verbatim>\<open>0x45\<close> and
  no extended-1 sequence pending), and \<^verbatim>\<open>MakeCode\<close> otherwise.
\<close>

theorem extended_lookup_from_construction:
  "adjustments (RawKeyboard_of raw) =
     (if Flags raw AND RI_KEY_E0 \<noteq> 0 then ExtendedLookup else 0) \<and>
   getLookupCode (RawKeyboard_of raw) =
     (if Flags raw AND RI_KEY_E0 \<noteq> 0 then MakeCode raw OR 0x100 else MakeCode raw) \<and>
   (adjustKeyboardInput mvk pending (RawKeyboard_of raw) = (True, e, p) \<longrightarrow>
      getLookupCode e =
        (if Flags raw AND RI_KEY_E0 \<noteq> 0 \<or> (MakeCode e = 0x45 \<and> pending \<noteq> E1)
         then MakeCode e OR 0x100 else MakeCode e))"
proof -
  have a: "adjustments (RawKeyboard_of raw) =
     (if Flags raw AND RI_KEY_E0 \<noteq> 0 then ExtendedLookup else 0)"
    by (simp add: RawKeyboard_of_def)
  have b: "getLookupCode (RawKeyboard_of raw) =
     (if Flags raw AND RI_KEY_E0 \<noteq> 0 then MakeCode raw OR 0x100 else MakeCode raw)"
    by (simp add: RawKeyboard_of_def getLookupCode_def ExtendedLookup_nonzero)
  have "(adjustments (RawKeyboard_of raw) AND ExtendedLookup \<noteq> 0) = (Flags raw AND RI_KEY_E0 \<noteq> 0)"
    by (simp add: a ExtendedLookup_nonzero)
  then have c: "getLookupCode e =
        (if Flags raw AND RI_KEY_E0 \<noteq> 0 \<or> (MakeCode e = 0x45 \<and> pending \<noteq> E1)
         then MakeCode e OR 0x100 else MakeCode e)"
    if "adjustKeyboardInput mvk pending (RawKeyboard_of raw) = (True, e, p)"
    using getLookupCode_adjustKeyboardInput [OF that] by simp
  from a b c show ?thesis by blast
qed

theorem extended_lookup_from_construction_witness:
  "getLookupCode (RawKeyboard_of (RAWKEYBOARD_init 0x1D 2 0xA3)) = 0x11D \<and>
   getLookupCode (RawKeyboard_of (RAWKEYBOARD_init 0x1D 0 0xA2)) = 0x1D \<and>
   adjustKeyboardInput (\<lambda>uCode uMapType. 0) NoneSeq (RawKeyboard_of (RAWKEYBOARD_init 0x1D 2 0xA3)) =
     (True, RawKeyboard_with (RAWKEYBOARD_init 0x1D 2 0xA3) ExtendedLookup, NoneSeq) \<and>
   getLookupCode (RawKeyboard_with (RAWKEYBOARD_init 0x1D 2 0xA3) ExtendedLookup) = 0x11D \<and>
   adjustKeyboardInput (\<lambda>uCode uMapType. 0) NoneSeq (RawKeyboard_of (RAWKEYBOARD_init 0x45 0 0x90)) =
     (True, RawKeyboard_with (RAWKEYBOARD_init 0x45 0 0x90) ExtendedLookup, NoneSeq) \<and>
   getLookupCode (RawKeyboard_with (RAWKEYBOARD_init 0x45 0 0x90) ExtendedLookup) = 0x145 \<and>
   adjustKeyboardInput (\<lambda>uCode uMapType. 0) NoneSeq (RawKeyboard_of (RAWKEYBOARD_init 0x1E 0 0x41)) =
     (True, RawKeyboard_with (RAWKEYBOARD_init 0x1E 0 0x41) 0, NoneSeq) \<and>
   getLookupCode (RawKeyboard_with (RAWKEYBOARD_init 0x1E 0 0x41) 0) = 0x1E"
  using extended_lookup_from_construction
      [where raw = "RAWKEYBOARD_init 0x1D 2 0xA3" and mvk = "\<lambda>uCode uMapType. 0"
        and pending = NoneSeq and e = "RawKeyboard_with (RAWKEYBOARD_init 0x1D 2 0xA3) ExtendedLookup"
        and p = NoneSeq]
    extended_lookup_from_construction
      [where raw = "RAWKEYBOARD_init 0x45 0 0x90" and mvk = "\<lambda>uCode uMapType. 0"
        and pending = NoneSeq and e = "RawKeyboard_with (RAWKEYBOARD_init 0x45 0 0x90) ExtendedLookup"
        and p = NoneSeq]
    extended_lookup_from_construction
      [where raw = "RAWKEYBOARD_init 0x1E 0 0x41" and mvk = "\<lambda>uCode uMapType. 0"
        and pending = NoneSeq and e = "RawKeyboard_with (RAWKEYBOARD_init 0x1E 0 0x41) 0"
        and p = NoneSeq]
    extended_lookup_from_construction
      [where raw = "RAWKEYBOARD_init 0x1D 0 0xA2" and mvk = "\<lambda>uCode uMapType. 0"
        and pending = NoneSeq and e = "RawKeyboard_with (RAWKEYBOARD_init 0x1D 0 0xA2) 0"
        and p = NoneSeq]
  by (simp add: adjustKeyboardInput_def RawKeyboard_of_def RawKeyboard_with_def Let_def
      adjustMakeCode45_def adjustVirtualKey_def getLookupCode_def winuser_defs
      AdjustmentFlags_defs)

subsection \<open>The codec\<close>

lemma and_0xFF_32: "(x :: 32 word) AND 0xFF = take_bit 8 x"
proof -
  have "(0xFF :: 32 word) = mask 8" by (simp add: mask_eq_exp_minus_1)
  then show ?thesis by (simp add: take_bit_eq_mask)
qed

lemma PackedRawKeyboard_of_take_bit:
  "PackedRawKeyboard_of k =
     take_bit 8 (ucast (MakeCode k)) OR push_bit 8 (take_bit 8 (ucast (Flags k))) OR
     push_bit 16 (take_bit 8 (ucast (VKey k))) OR push_bit 24 (take_bit 8 (adjustments k))"
  unfolding PackedRawKeyboard_of_def and_0xFF_32 ..

lemma bits_makeCode_PackedRawKeyboard_of:
  "bits_makeCode (PackedRawKeyboard_of k) = take_bit 8 (ucast (MakeCode k))"
  unfolding bits_makeCode_def PackedRawKeyboard_of_take_bit and_0xFF_32
  by (rule bit_word_eqI) (auto simp: bit_simps)

lemma bits_flags_PackedRawKeyboard_of:
  "bits_flags (PackedRawKeyboard_of k) = take_bit 8 (ucast (Flags k))"
  unfolding bits_flags_def PackedRawKeyboard_of_take_bit and_0xFF_32
  by (rule bit_word_eqI) (auto simp: bit_simps)

lemma bits_vKey_PackedRawKeyboard_of:
  "bits_vKey (PackedRawKeyboard_of k) = take_bit 8 (ucast (VKey k))"
  unfolding bits_vKey_def PackedRawKeyboard_of_take_bit and_0xFF_32
  by (rule bit_word_eqI) (auto simp: bit_simps)

lemma bits_adjustments_PackedRawKeyboard_of:
  "bits_adjustments (PackedRawKeyboard_of k) = take_bit 8 (adjustments k)"
  unfolding bits_adjustments_def PackedRawKeyboard_of_take_bit and_0xFF_32
  by (rule bit_word_eqI) (auto simp: bit_simps)

lemma ucast_take_bit_ucast_16:
  "(ucast (take_bit 8 (ucast (x :: 16 word) :: 32 word)) :: 16 word) = take_bit 8 x"
  by (rule bit_word_eqI) (auto simp: bit_simps)

lemma take_bit_8_le_16:
  fixes x :: "16 word"
  assumes "x \<le> 0xFF"
  shows "take_bit 8 x = x"
proof -
  have "unat x < 2 ^ 8" using assms by (simp add: word_le_nat_alt)
  then have "unat (take_bit 8 x) = unat x"
    by (simp add: unsigned_take_bit_eq take_bit_nat_eq_self)
  then show ?thesis by (simp only: word_unat_eq_iff)
qed

lemma take_bit_8_le_32:
  fixes x :: "32 word"
  assumes "x \<le> 0xFF"
  shows "take_bit 8 x = x"
proof -
  have "unat x < 2 ^ 8" using assms by (simp add: word_le_nat_alt)
  then have "unat (take_bit 8 x) = unat x"
    by (simp add: unsigned_take_bit_eq take_bit_nat_eq_self)
  then show ?thesis by (simp only: word_unat_eq_iff)
qed

text \<open>
  C1. For every event whose \<^verbatim>\<open>MakeCode\<close>, \<^verbatim>\<open>Flags\<close>, \<^verbatim>\<open>VKey\<close> and
  \<^verbatim>\<open>adjustments\<close> fit in 8 bits, packing it with the constructor of
  \<^verbatim>\<open>PackedRawKeyboard\<close> and unpacking the word with \<^verbatim>\<open>getRawKeyboard\<close> gives these
  four fields back, and \<^verbatim>\<open>isKeyDown\<close> of the unpacked event is recomputed from the
  flags byte: it holds exactly when the bit \<^verbatim>\<open>RI_KEY_BREAK\<close> is clear.
\<close>

theorem pack_unpack_roundtrip:
  assumes "MakeCode e \<le> 0xFF" and "Flags e \<le> 0xFF" and "VKey e \<le> 0xFF"
    and "adjustments e \<le> 0xFF"
  shows "MakeCode (getRawKeyboard (PackedRawKeyboard_of e)) = MakeCode e \<and>
         Flags (getRawKeyboard (PackedRawKeyboard_of e)) = Flags e \<and>
         VKey (getRawKeyboard (PackedRawKeyboard_of e)) = VKey e \<and>
         adjustments (getRawKeyboard (PackedRawKeyboard_of e)) = adjustments e \<and>
         isKeyDown (getRawKeyboard (PackedRawKeyboard_of e)) =
           (Flags (getRawKeyboard (PackedRawKeyboard_of e)) AND RI_KEY_BREAK = 0)"
  using assms
  by (simp add: getRawKeyboard_def RawKeyboard_with_def RawKeyboard_of_def
      bits_makeCode_PackedRawKeyboard_of bits_flags_PackedRawKeyboard_of
      bits_vKey_PackedRawKeyboard_of bits_adjustments_PackedRawKeyboard_of
      ucast_take_bit_ucast_16 take_bit_8_le_16 take_bit_8_le_32)

text \<open>
  The round trip at a released, extended Right-Control key whose virtual key was adjusted;
  the event went in with \<^verbatim>\<open>isKeyDown\<close> wrongly set and comes back with it recomputed.
\<close>

theorem pack_unpack_roundtrip_witness:
  "MakeCode \<lparr>MakeCode = 0x1D, Flags = 3, Reserved = 0, VKey = 0xA3, Message = 0x101,
      ExtraInformation = 0, adjustments = 0x82, isKeyDown = True\<rparr> \<le> (0xFF :: 16 word) \<and>
   Flags \<lparr>MakeCode = 0x1D, Flags = 3, Reserved = 0, VKey = 0xA3, Message = 0x101,
      ExtraInformation = 0, adjustments = 0x82, isKeyDown = True\<rparr> \<le> (0xFF :: 16 word) \<and>
   VKey \<lparr>MakeCode = 0x1D, Flags = 3, Reserved = 0, VKey = 0xA3, Message = 0x101,
      ExtraInformation = 0, adjustments = 0x82, isKeyDown = True\<rparr> \<le> (0xFF :: 16 word) \<and>
   adjustments \<lparr>MakeCode = 0x1D, Flags = 3, Reserved = 0, VKey = 0xA3, Message = 0x101,
      ExtraInformation = 0, adjustments = 0x82, isKeyDown = True\<rparr> \<le> (0xFF :: 32 word) \<and>
   getRawKeyboard (PackedRawKeyboard_of
     \<lparr>MakeCode = 0x1D, Flags = 3, Reserved = 0, VKey = 0xA3, Message = 0x101,
      ExtraInformation = 0, adjustments = 0x82, isKeyDown = True\<rparr>) =
     \<lparr>MakeCode = 0x1D, Flags = 3, Reserved = 0, VKey = 0xA3, Message = 0,
      ExtraInformation = 0, adjustments = 0x82, isKeyDown = False\<rparr>"
  using pack_unpack_roundtrip
    [of "\<lparr>MakeCode = 0x1D, Flags = 3, Reserved = 0, VKey = 0xA3, Message = 0x101,
      ExtraInformation = 0, adjustments = 0x82, isKeyDown = True\<rparr>"]
  by (simp add: getRawKeyboard_def RawKeyboard_with_def RawKeyboard_of_def
      PackedRawKeyboard_of_def bits_makeCode_def bits_flags_def bits_vKey_def
      bits_adjustments_def RI_KEY_BREAK_def RI_KEY_E0_def)

text \<open>
  C2 (as stated, refuted). The claim gives \<^verbatim>\<open>0x00411E\<close> as the packed word of the event
  with make code \<^verbatim>\<open>0x1E\<close>, flags 0, virtual key \<^verbatim>\<open>0x41\<close> and no adjustment. That word
  has \<^verbatim>\<open>0x41\<close> in its second byte, where the flags are; the constructor gives another
  word.
\<close>

theorem pack_example_counterexample:
  "PackedRawKeyboard_of
     \<lparr>MakeCode = 0x1E, Flags = 0, Reserved = 0, VKey = 0x41, Message = 0,
      ExtraInformation = 0, adjustments = 0, isKeyDown = True\<rparr> \<noteq> 0x00411E"
  by (simp add: PackedRawKeyboard_of_def)

text \<open>
  C2 (amended). Every event with make code \<^verbatim>\<open>0x1E\<close>, flags 0, virtual key \<^verbatim>\<open>0x41\<close>
  (the letter A) and no adjustment packs to the word \<^verbatim>\<open>0x0041001E\<close>: the make code is
  the lowest byte, the flags byte 0 is the second, the virtual key the third and the
  adjustments the highest, each field in a byte of its own.
\<close>

theorem pack_example:
  assumes "MakeCode e = 0x1E" and "Flags e = 0" and "VKey e = 0x41" and "adjustments e = 0"
  shows "PackedRawKeyboard_of e = 0x0041001E \<and>
         bits_makeCode (PackedRawKeyboard_of e) = 0x1E \<and>
         bits_flags (PackedRawKeyboard_of e) = 0 \<and>
         bits_vKey (PackedRawKeyboard_of e) = 0x41 \<and>
         bits_adjustments (PackedRawKeyboard_of e) = 0"
  using assms
  by (simp add: PackedRawKeyboard_of_def bits_makeCode_def bits_flags_def bits_vKey_def
      bits_adjustments_def)

theorem pack_example_witness:
  "MakeCode (RawKeyboard_of \<lparr>MakeCode = 0x1E, Flags = 0, Reserved = 0, VKey = 0x41,
      Message = 0x100, ExtraInformation = 0\<rparr>) = 0x1E \<and>
   Flags (RawKeyboard_of \<lparr>MakeCode = 0x1E, Flags = 0, Reserved = 0, VKey = 0x41,
      Message = 0x100, ExtraInformation = 0\<rparr>) = 0 \<and>
   VKey (RawKeyboard_of \<lparr>MakeCode = 0x1E, Flags = 0, Reserved = 0, VKey = 0x41,
      Message = 0x100, ExtraInformation = 0\<rparr>) = 0x41 \<and>
   adjustments (RawKeyboard_of \<lparr>MakeCode = 0x1E, Flags = 0, Reserved = 0, VKey = 0x41,
      Message = 0x100, ExtraInformation = 0\<rparr>) = 0 \<and>
   PackedRawKeyboard_of (RawKeyboard_of \<lparr>MakeCode = 0x1E, Flags = 0, Reserved = 0,
      VKey = 0x41, Message = 0x100, ExtraInformation = 0\<rparr>) = 0x0041001E"
  using pack_example
    [of "RawKeyboard_of \<lparr>MakeCode = 0x1E, Flags = 0, Reserved = 0, VKey = 0x41,
      Message = 0x100, ExtraInformation = 0\<rparr>"]
  by (simp add: RawKeyboard_of_def RI_KEY_E0_def)

lemma take_bit_8_less_256_16: "take_bit 8 (x :: 16 word) < 256"
proof -
  have "take_bit 8 (unat x) < 2 ^ 8" by (rule take_bit_nat_less_exp)
  then show ?thesis by (simp add: word_less_nat_alt unsigned_take_bit_eq)
qed

lemma and_0xFF_16: "(x :: 16 word) AND 0xFF = take_bit 8 x"
proof -
  have "(0xFF :: 16 word) = mask 8" by (simp add: mask_eq_exp_minus_1)
  then show ?thesis by (simp add: take_bit_eq_mask)
qed

lemma onInputKeyboard_fields:
  assumes "onInputKeyboard mvk pending raw = (Some e, p)"
  shows "Flags e = Flags raw \<and>
         MakeCode e =
           (if MakeCode raw = 0 then LOWORD (mvk (ucast (VKey raw)) MAPVK_VK_TO_VSC_EX)
            else MakeCode raw)"
  using assms
  by (auto simp: onInputKeyboard_def adjustKeyboardInput_def RawKeyboard_of_def Let_def
      split: if_splits)

text \<open>
  C9 (as stated, refuted). \<^verbatim>\<open>adjustKeyboardInput\<close> works on the \<^verbatim>\<open>USHORT\<close> members
  and truncates nothing. For the extended Right-Control key reported with make code 0, a
  translation that returns the extended scan code \<^verbatim>\<open>0xE01D\<close> gives a returned event
  whose make code is \<^verbatim>\<open>0xE01D\<close>, not less than 256.
\<close>

theorem normalized_fields_counterexample:
  "onInputKeyboard (\<lambda>uCode uMapType. 0xE01D) NoneSeq
     \<lparr>MakeCode = 0, Flags = 2, Reserved = 0, VKey = 0xA3, Message = 0x100,
      ExtraInformation = 0\<rparr> =
     (Some \<lparr>MakeCode = 0xE01D, Flags = 2, Reserved = 0, VKey = 0xA3, Message = 0x100,
        ExtraInformation = 0, adjustments = 0x81, isKeyDown = True\<rparr>, NoneSeq) \<and>
   \<not> (0xE01D :: 16 word) < 256"
  by (simp add: onInputKeyboard_def adjustKeyboardInput_def RawKeyboard_of_def Let_def
      adjustMakeCode45_def adjustVirtualKey_def winuser_defs AdjustmentFlags_defs LOWORD_def)

text \<open>
  C9 (amended). An event returned by the normaliser keeps 16-bit members: its flags are
  the raw flags and its make code is the raw make code or, when that is 0, the low word
  of the platform translation. The truncation to 8 bits is done by the constructor of
  \<^verbatim>\<open>PackedRawKeyboard\<close>: the event read back from the packed word, which is what is
  stored and displayed, has the low 8 bits of each of the three members, so each is
  less than 256.
\<close>

theorem stored_fields_fit_in_a_byte:
  assumes "onInputKeyboard mvk pending raw = (Some e, p)"
  shows "Flags e = Flags raw \<and>
         MakeCode e =
           (if MakeCode raw = 0 then LOWORD (mvk (ucast (VKey raw)) MAPVK_VK_TO_VSC_EX)
            else MakeCode raw) \<and>
         MakeCode (getRawKeyboard (PackedRawKeyboard_of e)) = MakeCode e AND 0xFF \<and>
         Flags (getRawKeyboard (PackedRawKeyboard_of e)) = Flags e AND 0xFF \<and>
         VKey (getRawKeyboard (PackedRawKeyboard_of e)) = VKey e AND 0xFF \<and>
         MakeCode (getRawKeyboard (PackedRawKeyboard_of e)) < 256 \<and>
         Flags (getRawKeyboard (PackedRawKeyboard_of e)) < 256 \<and>
         VKey (getRawKeyboard (PackedRawKeyboard_of e)) < 256"
  using onInputKeyboard_fields [OF assms]
  by (simp add: getRawKeyboard_def RawKeyboard_with_def RawKeyboard_of_def
      bits_makeCode_PackedRawKeyboard_of bits_flags_PackedRawKeyboard_of
      bits_vKey_PackedRawKeyboard_of ucast_take_bit_ucast_16 and_0xFF_16
      take_bit_8_less_256_16)

theorem stored_fields_fit_in_a_byte_witness:
  "onInputKeyboard (\<lambda>uCode uMapType. 0xE01D) NoneSeq (RAWKEYBOARD_init 0 2 0xA3) =
     (Some (RawKeyboard_with (RAWKEYBOARD_init 0xE01D 2 0xA3)
              (ExtendedLookup OR MakeCodeMapped)), NoneSeq) \<and>
   MakeCode (getRawKeyboard (PackedRawKeyboard_of
     (RawKeyboard_with (RAWKEYBOARD_init 0xE01D 2 0xA3) (ExtendedLookup OR MakeCodeMapped)))) =
     0x1D"
  using stored_fields_fit_in_a_byte
    [where mvk = "\<lambda>uCode uMapType. 0xE01D" and pending = NoneSeq
      and raw = "RAWKEYBOARD_init 0 2 0xA3"
      and e = "RawKeyboard_with (RAWKEYBOARD_init 0xE01D 2 0xA3)
                 (ExtendedLookup OR MakeCodeMapped)"
      and p = NoneSeq]
  by (simp add: onInputKeyboard_def adjustKeyboardInput_def RawKeyboard_of_def
      RawKeyboard_with_def Let_def adjustMakeCode45_def adjustVirtualKey_def winuser_defs
      AdjustmentFlags_defs LOWORD_def)

subsection \<open>The key tables and the lookups\<close>

lemma emplace_apply:
  "emplace m k v k' =
     (case m k' of Some old \<Rightarrow> Some old | None \<Rightarrow> if k' = k then Some v else None)"
  by (simp add: emplace_def split: option.splits)

lemma foldl_emplace_first:
  "foldl (\<lambda>m line. case f line of (k, v) \<Rightarrow> emplace m k v) m0 ls k =
     (case m0 k of
        Some old \<Rightarrow> Some old
      | None \<Rightarrow> map_option (\<lambda>line. snd (f line)) (find (\<lambda>line. fst (f line) = k) ls))"
proof (induction ls arbitrary: m0)
  case Nil
  then show ?case by (simp split: option.splits)
next
  case (Cons l ls)
  let ?step = "\<lambda>m line. case f line of (k, v) \<Rightarrow> emplace m k v"
  obtain k1 v1 where f: "f l = (k1, v1)" by (cases "f l")
  have "foldl ?step m0 (l # ls) k = foldl ?step (emplace m0 k1 v1) ls k"
    by (simp only: foldl_Cons f prod.case)
  also have "\<dots> =
     (case emplace m0 k1 v1 k of
        Some old \<Rightarrow> Some old
      | None \<Rightarrow> map_option (\<lambda>line. snd (f line)) (find (\<lambda>line. fst (f line) = k) ls))"
    by (rule Cons.IH)
  also have "\<dots> =
     (case m0 k of
        Some old \<Rightarrow> Some old
      | None \<Rightarrow> map_option (\<lambda>line. snd (f line)) (find (\<lambda>line. fst (f line) = k) (l # ls)))"
    by (simp add: emplace_apply f split: option.splits)
  finally show ?case .
qed

lemmas load_eval_defs =
  loadScanCodeMapping_def loadVkeyMapping_def splitAndTrimTrailing_def trimTrailing_def
  isWhitespace_def splitOnce_def scanCodeEntry_def vkeyEntry_def toUShort_def toInt_def
  zeroTerminated_def toWString_def KeyCodes_of_def emplace_def strtoll_C_def digitValue_def
  ascii_wide_def Let_def

text \<open>
  C3 (as stated, refuted). The text has two lines with the key \<^verbatim>\<open>1E\<close>. Both loops add
  their pairs with \<^verbatim>\<open>emplace\<close>, which does not replace an element that is already in
  the map: the table maps \<^verbatim>\<open>0x1E\<close> to the entry of the first line, with key code 4, and
  not to the entry of the later line, with key code 5.
\<close>

theorem last_line_wins_counterexample:
  "splitAndTrimTrailing (''1E=4,A,B,C'' @ [CHR 0x0D, CHR 0x0A] @ ''1E=5,X,Y,Z'' @ [CHR 0x0A]) CHR 0x0A =
     [''1E=4,A,B,C'', ''1E=5,X,Y,Z''] \<and>
   scanCodeEntry strtoll_C ascii_wide ''1E=4,A,B,C'' =
     (0x1E, \<lparr>keyCode = 4, sml = [0x41], ray = [0x42], glfw = [0x43]\<rparr>) \<and>
   scanCodeEntry strtoll_C ascii_wide ''1E=5,X,Y,Z'' =
     (0x1E, \<lparr>keyCode = 5, sml = [0x58], ray = [0x59], glfw = [0x5A]\<rparr>) \<and>
   loadScanCodeMapping strtoll_C ascii_wide
     (''1E=4,A,B,C'' @ [CHR 0x0D, CHR 0x0A] @ ''1E=5,X,Y,Z'' @ [CHR 0x0A]) 0x1E =
     Some \<lparr>keyCode = 4, sml = [0x41], ray = [0x42], glfw = [0x43]\<rparr> \<and>
   loadScanCodeMapping strtoll_C ascii_wide
     (''1E=4,A,B,C'' @ [CHR 0x0D, CHR 0x0A] @ ''1E=5,X,Y,Z'' @ [CHR 0x0A]) 0x1E \<noteq>
     Some \<lparr>keyCode = 5, sml = [0x58], ray = [0x59], glfw = [0x5A]\<rparr>"
  by (simp add: load_eval_defs)


text \<open>
  C3 (amended). In both tables the first line wins: for every text and every key, the
  loaded table maps the key to the entry built from the first of the trimmed, non-empty
  lines whose key field parses to that key, and has no entry for a key that no line
  gives. Later lines with the same key are ignored. This holds whatever \<^verbatim>\<open>strtoll\<close> and
  the wide-character conversion compute.
\<close>

theorem first_line_wins:
  "loadScanCodeMapping strtoll mb2wc tableText k =
     map_option (\<lambda>line. snd (scanCodeEntry strtoll mb2wc line))
       (find (\<lambda>line. fst (scanCodeEntry strtoll mb2wc line) = k)
          (splitAndTrimTrailing tableText CHR 0x0A)) \<and>
   loadVkeyMapping strtoll mb2wc tableText k =
     map_option (\<lambda>line. snd (vkeyEntry strtoll mb2wc line))
       (find (\<lambda>line. fst (vkeyEntry strtoll mb2wc line) = k)
          (splitAndTrimTrailing tableText CHR 0x0A))"
  by (simp add: loadScanCodeMapping_def loadVkeyMapping_def foldl_emplace_first)

theorem first_line_wins_witness:
  "loadScanCodeMapping strtoll_C ascii_wide
     (''1E=4,A,B,C'' @ [CHR 0x0D, CHR 0x0A] @ ''1E=5,X,Y,Z'' @ [CHR 0x0A]) 0x1E =
     Some \<lparr>keyCode = 4, sml = [0x41], ray = [0x42], glfw = [0x43]\<rparr> \<and>
   loadVkeyMapping strtoll_C ascii_wide
     (''41=a,A'' @ [CHR 0x0A] @ ''0x41=b,B'' @ [CHR 0x0A] @ ''42=c,C'') 0x41 =
     Some ([0x61], [0x41])"
  using first_line_wins
    [where strtoll = strtoll_C and mb2wc = ascii_wide and k = "0x1E"
      and tableText = "''1E=4,A,B,C'' @ [CHR 0x0D, CHR 0x0A] @ ''1E=5,X,Y,Z'' @ [CHR 0x0A]"]
    first_line_wins
    [where strtoll = strtoll_C and mb2wc = ascii_wide and k = "0x41"
      and tableText = "''41=a,A'' @ [CHR 0x0A] @ ''0x41=b,B'' @ [CHR 0x0A] @ ''42=c,C''"]
  by (simp add: load_eval_defs)

text \<open>
  C8 (as stated, refuted). A table loaded from a text without the sentinel line has no
  sentinel key. For an event whose key is not in the table, both lookups then return the
  result of the second \<^verbatim>\<open>find\<close>, the past-the-end iterator, which refers to no entry;
  no empty or zero entry is made. (The callers dereference the iterator unchecked.)
\<close>

theorem lookup_fallback_counterexample:
  "loadVkeyMapping strtoll_C ascii_wide ''41=a,A'' 0x41 = Some ([0x61], [0x41]) \<and>
   lookupVirtualKey (loadVkeyMapping strtoll_C ascii_wide ''41=a,A'')
     (getRawKeyboard 0x00420030) = None \<and>
   loadScanCodeMapping strtoll_C ascii_wide ''1E=4,A,B,C'' 0x1E =
     Some \<lparr>keyCode = 4, sml = [0x41], ray = [0x42], glfw = [0x43]\<rparr> \<and>
   lookupKeyCode (loadScanCodeMapping strtoll_C ascii_wide ''1E=4,A,B,C'')
     (getRawKeyboard 0x00420030) = None"
  by (simp add: load_eval_defs lookupVirtualKey_def lookupKeyCode_def map_find_def
      getRawKeyboard_def RawKeyboard_with_def RawKeyboard_of_def getLookupCode_def
      bits_makeCode_def bits_flags_def bits_vKey_def bits_adjustments_def
      RI_KEY_E0_def RI_KEY_BREAK_def ExtendedLookup_def)

text \<open>
  C8 (amended). For every table and every event, \<^verbatim>\<open>lookupVirtualKey\<close> returns the
  element with key \<^verbatim>\<open>VKey\<close> when the table has it, otherwise the element with key
  \<^verbatim>\<open>0xFF\<close> when the table has that, and otherwise the past-the-end iterator;
  \<^verbatim>\<open>lookupKeyCode\<close> does the same with the lookup code of the event and the key
  \<^verbatim>\<open>0x000\<close>.
\<close>

theorem lookup_fallback:
  "lookupVirtualKey vkeyMapping rawKbd =
     (case vkeyMapping (VKey rawKbd) of
        Some v \<Rightarrow> Some (VKey rawKbd, v)
      | None \<Rightarrow> (case vkeyMapping 0xFF of Some s \<Rightarrow> Some (0xFF, s) | None \<Rightarrow> None)) \<and>
   lookupKeyCode scanCodeMapping rawKbd =
     (case scanCodeMapping (getLookupCode rawKbd) of
        Some v \<Rightarrow> Some (getLookupCode rawKbd, v)
      | None \<Rightarrow> (case scanCodeMapping 0x000 of Some s \<Rightarrow> Some (0x000, s) | None \<Rightarrow> None))"
  by (simp add: lookupVirtualKey_def lookupKeyCode_def map_find_def split: option.splits)

theorem lookup_fallback_witness:
  "lookupVirtualKey (loadVkeyMapping strtoll_C ascii_wide (''41=a,A'' @ [CHR 0x0A] @ ''FF=u,U''))
     (getRawKeyboard 0x0041001E) = Some (0x41, [0x61], [0x41]) \<and>
   lookupVirtualKey (loadVkeyMapping strtoll_C ascii_wide (''41=a,A'' @ [CHR 0x0A] @ ''FF=u,U''))
     (getRawKeyboard 0x00420030) = Some (0xFF, [0x75], [0x55]) \<and>
   lookupKeyCode
     (loadScanCodeMapping strtoll_C ascii_wide (''000=0,u,v,w'' @ [CHR 0x0A] @ ''11D=7,r,s,t''))
     (getRawKeyboard 0x80A3021D) =
     Some (0x11D, \<lparr>keyCode = 7, sml = [0x72], ray = [0x73], glfw = [0x74]\<rparr>) \<and>
   lookupKeyCode
     (loadScanCodeMapping strtoll_C ascii_wide (''000=0,u,v,w'' @ [CHR 0x0A] @ ''11D=7,r,s,t''))
     (getRawKeyboard 0x00A2001D) =
     Some (0x000, \<lparr>keyCode = 0, sml = [0x75], ray = [0x76], glfw = [0x77]\<rparr>)"
  using lookup_fallback
    [where vkeyMapping =
        "loadVkeyMapping strtoll_C ascii_wide (''41=a,A'' @ [CHR 0x0A] @ ''FF=u,U'')"
      and scanCodeMapping =
        "loadScanCodeMapping strtoll_C ascii_wide
           (''000=0,u,v,w'' @ [CHR 0x0A] @ ''11D=7,r,s,t'')"
      and rawKbd = "getRawKeyboard 0x0041001E"]
  by (simp add: load_eval_defs lookupVirtualKey_def lookupKeyCode_def map_find_def
      getRawKeyboard_def RawKeyboard_with_def RawKeyboard_of_def getLookupCode_def
      bits_makeCode_def bits_flags_def bits_vKey_def bits_adjustments_def
      RI_KEY_E0_def RI_KEY_BREAK_def ExtendedLookup_def)

end
